theory Spec2Isabelle
  imports Complex_Main "HOL-Library.Multiset"
begin

section \<open>Floating-point scalars\<close>

text \<open>
  The loss in \<^verbatim>\<open>src/neuralngen/training/loss.py\<close> computes on torch floating-point
  tensors and on Python floats. A scalar is the missing-value marker \<open>NaN\<close>, one of the
  two infinities, or a finite number. The two zeros of a format are not told apart.
\<close>

datatype fl = NaN | NInf | PInf | Num real

text \<open>
  A format (binary32 for the default tensors, binary64 for Python floats) is given by its
  rounding: the function that takes the exact result of an operation on finite numbers to
  the value the operation returns, a finite number of the format or, on overflow, an
  infinity. The program is modelled for every format; the rounding is a parameter of each
  operation that rounds.
\<close>

type_synonym format = "real \<Rightarrow> fl"

text \<open>
  Facts of the binary formats with rounding to nearest that some properties rest on:
  a rounding never gives \<open>NaN\<close>, zero is a number of the format, a rounded value is a
  number of the format (it rounds to itself), and the double of a number of the format is
  a number of the format unless it overflows.
\<close>

definition wf_format :: "format \<Rightarrow> bool" where
  "wf_format f =
     ((\<forall>x. f x \<noteq> NaN)
      \<and> f 0 = Num 0
      \<and> (\<forall>x a. f x = Num a \<longrightarrow> f a = Num a)
      \<and> (\<forall>a. f a = Num a \<longrightarrow> f (2 * a) = Num (2 * a) \<or> f (2 * a) = PInf \<or> f (2 * a) = NInf))"

text \<open>
  The format without rounding and without overflow, in which every real is a number of
  the format. The concrete evaluations below use it, on inputs whose results binary32 and
  binary64 compute exactly as well.
\<close>

definition exact_format :: format where
  "exact_format x = Num x"

fun fl_neg :: "fl \<Rightarrow> fl" where
  "fl_neg (Num a) = Num (- a)"
| "fl_neg PInf = NInf"
| "fl_neg NInf = PInf"
| "fl_neg NaN = NaN"

fun fl_add :: "format \<Rightarrow> fl \<Rightarrow> fl \<Rightarrow> fl" where
  "fl_add f (Num a) (Num b) = f (a + b)"
| "fl_add f NaN y = NaN"
| "fl_add f x NaN = NaN"
| "fl_add f PInf NInf = NaN"
| "fl_add f NInf PInf = NaN"
| "fl_add f PInf y = PInf"
| "fl_add f NInf y = NInf"
| "fl_add f x PInf = PInf"
| "fl_add f x NInf = NInf"

definition fl_sub :: "format \<Rightarrow> fl \<Rightarrow> fl \<Rightarrow> fl" where
  "fl_sub f x y = fl_add f x (fl_neg y)"

fun fl_mul :: "format \<Rightarrow> fl \<Rightarrow> fl \<Rightarrow> fl" where
  "fl_mul f (Num a) (Num b) = f (a * b)"
| "fl_mul f NaN y = NaN"
| "fl_mul f x NaN = NaN"
| "fl_mul f PInf (Num b) = (if b = 0 then NaN else if 0 < b then PInf else NInf)"
| "fl_mul f NInf (Num b) = (if b = 0 then NaN else if 0 < b then NInf else PInf)"
| "fl_mul f (Num a) PInf = (if a = 0 then NaN else if 0 < a then PInf else NInf)"
| "fl_mul f (Num a) NInf = (if a = 0 then NaN else if 0 < a then NInf else PInf)"
| "fl_mul f PInf PInf = PInf"
| "fl_mul f NInf NInf = PInf"
| "fl_mul f PInf NInf = NInf"
| "fl_mul f NInf PInf = NInf"

fun fl_abs :: "fl \<Rightarrow> fl" where
  "fl_abs (Num a) = Num \<bar>a\<bar>"
| "fl_abs PInf = PInf"
| "fl_abs NInf = PInf"
| "fl_abs NaN = NaN"

text \<open>\<^verbatim>\<open>x ** n\<close> for a non-negative integer exponent; \<^verbatim>\<open>x ** 0\<close> is 1 for every \<open>x\<close>,
  \<open>NaN\<close> included.\<close>

definition fl_pow :: "format \<Rightarrow> fl \<Rightarrow> nat \<Rightarrow> fl" where
  "fl_pow f x n =
     (if n = 0 then Num 1
      else case x of
             Num a \<Rightarrow> f (a ^ n)
           | PInf \<Rightarrow> PInf
           | NInf \<Rightarrow> (if even n then PInf else NInf)
           | NaN \<Rightarrow> NaN)"

text \<open>Division of a sum by an element count; \<^verbatim>\<open>0 / 0\<close> is \<open>NaN\<close>.\<close>

fun fl_div_count :: "format \<Rightarrow> fl \<Rightarrow> nat \<Rightarrow> fl" where
  "fl_div_count f (Num a) n =
     (if n = 0 then (if a = 0 then NaN else if 0 < a then PInf else NInf)
      else f (a / real n))"
| "fl_div_count f PInf n = PInf"
| "fl_div_count f NInf n = NInf"
| "fl_div_count f NaN n = NaN"

definition fl_sum :: "format \<Rightarrow> fl list \<Rightarrow> fl" where
  "fl_sum f xs = foldr (fl_add f) xs (Num 0)"

text \<open>\<^verbatim>\<open>Tensor.mean()\<close> over all elements: the mean of no element is \<open>NaN\<close>.\<close>

definition fl_mean :: "format \<Rightarrow> fl list \<Rightarrow> fl" where
  "fl_mean f xs = (if xs = [] then NaN else fl_div_count f (fl_sum f xs) (length xs))"

text \<open>\<^verbatim>\<open>torch.clamp(x, min=m)\<close> with a finite \<open>m\<close>: a \<open>NaN\<close> input stays \<open>NaN\<close>.\<close>

fun fl_clamp_min :: "fl \<Rightarrow> real \<Rightarrow> fl" where
  "fl_clamp_min (Num a) m = Num (max a m)"
| "fl_clamp_min PInf m = PInf"
| "fl_clamp_min NInf m = Num m"
| "fl_clamp_min NaN m = NaN"


text \<open>
  The order \<^verbatim>\<open>torch.sort\<close> sorts by: the order of the numbers between the two
  infinities, with \<open>NaN\<close> above everything. It is a sorting order only; comparisons of the
  program are \<open>fl_ge\<close>.
\<close>

instantiation fl :: linorder
begin

fun less_eq_fl :: "fl \<Rightarrow> fl \<Rightarrow> bool" where
  "less_eq_fl x NaN = True"
| "less_eq_fl NaN y = False"
| "less_eq_fl x PInf = True"
| "less_eq_fl PInf y = False"
| "less_eq_fl NInf y = True"
| "less_eq_fl x NInf = False"
| "less_eq_fl (Num a) (Num b) = (a \<le> b)"

definition less_fl :: "fl \<Rightarrow> fl \<Rightarrow> bool" where
  "less_fl x y = (x \<le> y \<and> \<not> y \<le> x)"

instance
proof
  fix x y z :: fl
  show "(x < y) = (x \<le> y \<and> \<not> y \<le> x)"
    by (simp add: less_fl_def)
  show "x \<le> x"
    by (cases x) simp_all
  show "x \<le> y \<Longrightarrow> y \<le> z \<Longrightarrow> x \<le> z"
    by (cases x; cases y; cases z) simp_all
  show "x \<le> y \<Longrightarrow> y \<le> x \<Longrightarrow> x = y"
    by (cases x; cases y) simp_all
  show "x \<le> y \<or> y \<le> x"
    by (cases x; cases y) auto
qed

end

text \<open>\<^verbatim>\<open>torch.sort(xs, descending=True)\<close>, the values only.\<close>

definition sort_desc :: "fl list \<Rightarrow> fl list" where
  "sort_desc xs = rev (sort xs)"

section \<open>Tensors of rank 3\<close>

text \<open>
  A tensor of shape \<open>[B, T, D]\<close> with its elements in row-major order: the element at
  \<open>(b, t, d)\<close> is \<open>elems ! ((b * T + t) * D + d)\<close>.
\<close>

record 'a tensor3 =
  dimB :: nat
  dimT :: nat
  dimD :: nat
  elems :: "'a list"

definition shape :: "'a tensor3 \<Rightarrow> nat \<times> nat \<times> nat" where
  "shape t = (dimB t, dimT t, dimD t)"

definition wf_tensor :: "'a tensor3 \<Rightarrow> bool" where
  "wf_tensor t = (length (elems t) = dimB t * dimT t * dimD t)"

definition at3 :: "'a tensor3 \<Rightarrow> nat \<Rightarrow> nat \<Rightarrow> nat \<Rightarrow> 'a" where
  "at3 t b i d = elems t ! ((b * dimT t + i) * dimD t + d)"

text \<open>\<^verbatim>\<open>~torch.isnan(y)\<close>\<close>

definition not_isnan :: "fl tensor3 \<Rightarrow> bool tensor3" where
  "not_isnan y =
     \<lparr>dimB = dimB y, dimT = dimT y, dimD = dimD y, elems = map (\<lambda>v. v \<noteq> NaN) (elems y)\<rparr>"

text \<open>\<^verbatim>\<open>torch.zeros_like(t)\<close>\<close>

definition zeros_like :: "fl tensor3 \<Rightarrow> fl tensor3" where
  "zeros_like t =
     \<lparr>dimB = dimB t, dimT = dimT t, dimD = dimD t, elems = map (\<lambda>v. Num 0) (elems t)\<rparr>"

text \<open>\<^verbatim>\<open>torch.where(mask, a, b)\<close> on three tensors of one shape.\<close>

definition tensor_where :: "bool tensor3 \<Rightarrow> fl tensor3 \<Rightarrow> fl tensor3 \<Rightarrow> fl tensor3" where
  "tensor_where msk a b =
     \<lparr>dimB = dimB a, dimT = dimT a, dimD = dimD a,
      elems = map (\<lambda>(m, x, z). if m then x else z) (zip (elems msk) (zip (elems a) (elems b)))\<rparr>"

text \<open>
  Boolean indexing \<^verbatim>\<open>t[mask]\<close> with a mask of the tensor's shape: the selected elements
  as a vector, in row-major order.
\<close>

definition bool_index :: "'a tensor3 \<Rightarrow> bool tensor3 \<Rightarrow> 'a list" where
  "bool_index t msk = map fst (filter snd (zip (elems t) (elems msk)))"

text \<open>\<^verbatim>\<open>F.mse_loss(input, target)\<close> with the default mean reduction, on two vectors.\<close>

definition mse_loss_F :: "format \<Rightarrow> fl list \<Rightarrow> fl list \<Rightarrow> fl" where
  "mse_loss_F f xs ys = fl_mean f (map (\<lambda>(a, b). fl_pow f (fl_sub f a b) 2) (zip xs ys))"

section \<open>Errors, configuration and the random source\<close>

text \<open>The exceptions of Python that the code can raise, with the name or message they carry.\<close>

datatype error =
    AttributeError string
  | TypeError string
  | ValueError string
  | IndexError string
  | OverflowError string
  | ShapeError string

text \<open>
  The fields \<^verbatim>\<open>__init__\<close> stores on an \<^verbatim>\<open>ngenLoss\<close> instance. The weights are finite
  Python floats; \<^verbatim>\<open>v_order\<close> is a non-negative integer exponent (default 2); the distance
  matrix is a list of rows.
\<close>

record ngenLoss =
  distance_matrix :: "fl list list option"
  variogram_weight :: real
  fdc_weight :: real
  v_order :: nat

text \<open>
  The ambient generator of the \<^verbatim>\<open>random\<close> module: the sequence of values that
  \<^verbatim>\<open>random.random()\<close> is still to return, finite floats. \<^verbatim>\<open>random.uniform(a, b)\<close>
  takes the next one and returns \<^verbatim>\<open>a + (b - a) * random()\<close>, computed on Python floats.
\<close>

type_synonym rng = "nat \<Rightarrow> real"

definition random_uniform :: "format \<Rightarrow> fl \<Rightarrow> fl \<Rightarrow> rng \<Rightarrow> fl \<times> rng" where
  "random_uniform py a b g =
     (fl_add py a (fl_mul py (fl_sub py b a) (Num (g 0))), \<lambda>n. g (Suc n))"

section \<open>The hydrograph characteristic reducer\<close>

text \<open>The time series of example \<open>b\<close> and site \<open>d\<close>, and a reduction along \<^verbatim>\<open>dim=1\<close>
  to the rows of a \<open>[B, D]\<close> result.\<close>

definition series :: "fl tensor3 \<Rightarrow> nat \<Rightarrow> nat \<Rightarrow> fl list" where
  "series ts b d = map (\<lambda>i. at3 ts b i d) [0..<dimT ts]"

definition reduce_time :: "(fl list \<Rightarrow> fl) \<Rightarrow> fl tensor3 \<Rightarrow> fl list list" where
  "reduce_time f ts = map (\<lambda>b. map (\<lambda>d. f (series ts b d)) [0..<dimD ts]) [0..<dimB ts]"

text \<open>\<^verbatim>\<open>Tensor.median\<close>: the lower of the two middle values, \<open>NaN\<close> when the series has one.\<close>

definition fl_median :: "fl list \<Rightarrow> fl" where
  "fl_median xs = (if NaN \<in> set xs then NaN else sort xs ! ((length xs - 1) div 2))"

fun fl_sqrt :: "format \<Rightarrow> fl \<Rightarrow> fl" where
  "fl_sqrt f (Num a) = (if a < 0 then NaN else f (sqrt a))"
| "fl_sqrt f PInf = PInf"
| "fl_sqrt f NInf = NaN"
| "fl_sqrt f NaN = NaN"

text \<open>\<^verbatim>\<open>Tensor.std\<close>: the sample standard deviation (divisor \<open>n - 1\<close>), \<open>NaN\<close> below two values.\<close>

definition fl_std :: "format \<Rightarrow> fl list \<Rightarrow> fl" where
  "fl_std f xs =
     (let m = fl_mean f xs
      in fl_sqrt f
           (fl_div_count f (fl_sum f (map (\<lambda>x. fl_pow f (fl_sub f x m) 2) xs)) (length xs - 1)))"

text \<open>Python's \<^verbatim>\<open>int(x)\<close> on a finite float: truncation towards zero.\<close>

definition py_int :: "real \<Rightarrow> int" where
  "py_int x = (if 0 \<le> x then \<lfloor>x\<rfloor> else \<lceil>x\<rceil>)"

text \<open>
  Lines 190 and 191, after the product: the index the quantile method reads, from the
  finite value \<open>p\<close> of the floating-point product \<^verbatim>\<open>quantile * ts.shape[1]\<close>.
\<close>

definition quantile_index :: "real \<Rightarrow> nat \<Rightarrow> int" where
  "quantile_index p T = max 0 (min (py_int p) (int T - 1))"

text \<open>
  The body of \<^verbatim>\<open>var_hyd_char\<close> (lines 177 to 195) on arguments of the documented types,
  with the format \<open>py\<close> of Python floats and the format \<open>dt\<close> of the tensor. The result
  has shape \<open>[B, D]\<close> and is given by its rows. The product of line 190 is a product of
  Python floats; \<^verbatim>\<open>int\<close> raises on a \<open>NaN\<close> and on an infinity. Reading index 0 of an
  empty time axis raises, as does the median of an empty time axis.
\<close>

definition var_hyd_char ::
  "format \<Rightarrow> format \<Rightarrow> fl tensor3 \<Rightarrow> string \<Rightarrow> fl \<Rightarrow> bool \<Rightarrow> fl \<times> fl \<Rightarrow> rng
     \<Rightarrow> error + (fl list list \<times> rng)" where
  "var_hyd_char py dt ts method quantile random_quantile quantile_bounds g =
     (if method = ''mean'' then Inr (reduce_time (fl_mean dt) ts, g)
      else if method = ''median'' then
        (if dimT ts = 0 then Inl (IndexError ''median of an empty dimension'')
         else Inr (reduce_time fl_median ts, g))
      else if method = ''std'' then Inr (reduce_time (fl_std dt) ts, g)
      else if method = ''quantile'' then
        (let (quantile', g') =
               (if random_quantile
                then random_uniform py (fst quantile_bounds) (snd quantile_bounds) g
                else (quantile, g))
         in case fl_mul py quantile' (Num (real (dimT ts))) of
              NaN \<Rightarrow> Inl (ValueError ''cannot convert float NaN to integer'')
            | PInf \<Rightarrow> Inl (OverflowError ''cannot convert float infinity to integer'')
            | NInf \<Rightarrow> Inl (OverflowError ''cannot convert float infinity to integer'')
            | Num p \<Rightarrow>
                (let index = quantile_index p (dimT ts)
                 in if index < int (dimT ts)
                    then Inr (reduce_time (\<lambda>xs. sort_desc xs ! nat index) ts, g')
                    else Inl (IndexError ''index out of range for the time axis'')))
      else Inl (ValueError (''Unknown method for hydrograph characteristic: '' @ method)))"

text \<open>
  The index the specification describes for the quantile method, from the same product:
  \<open>clamp(round(quantile * T), 0, T - 1)\<close>.
\<close>

definition quantile_index_spec :: "real \<Rightarrow> nat \<Rightarrow> int" where
  "quantile_index_spec p T = max 0 (min (round p) (int T - 1))"

section \<open>Calling a Python function\<close>

text \<open>
  The values the code passes around, and the binding of the arguments of a call to the
  parameters of a \<^verbatim>\<open>def\<close>: positional arguments fill the parameters from the left, a
  keyword argument must name a parameter that has no value yet, and a parameter left
  without a value takes its default. Each failure is a \<^verbatim>\<open>TypeError\<close>.
\<close>

datatype pyval =
    PyModule ngenLoss
  | PyTensor "fl tensor3"
  | PyMask "bool tensor3"
  | PyStr string
  | PyFloat fl
  | PyBool bool
  | PyPair fl fl

fun bind_positional :: "string list \<Rightarrow> pyval list \<Rightarrow> error + (string \<times> pyval) list" where
  "bind_positional ps [] = Inr []"
| "bind_positional [] (v # vs) = Inl (TypeError ''too many positional arguments'')"
| "bind_positional (p # ps) (v # vs) =
     (case bind_positional ps vs of Inl e \<Rightarrow> Inl e | Inr env \<Rightarrow> Inr ((p, v) # env))"

fun bind_keywords ::
  "string list \<Rightarrow> (string \<times> pyval) list \<Rightarrow> (string \<times> pyval) list \<Rightarrow> error + (string \<times> pyval) list" where
  "bind_keywords ps env [] = Inr env"
| "bind_keywords ps env ((k, v) # kws) =
     (if k \<notin> set ps then Inl (TypeError (''unexpected keyword argument '' @ k))
      else if k \<in> set (map fst env) then Inl (TypeError (''multiple values for argument '' @ k))
      else bind_keywords ps (env @ [(k, v)]) kws)"

fun bind_defaults ::
  "(string \<times> pyval option) list \<Rightarrow> (string \<times> pyval) list \<Rightarrow> error + (string \<times> pyval) list" where
  "bind_defaults [] env = Inr env"
| "bind_defaults ((p, dflt) # ps) env =
     (if p \<in> set (map fst env) then bind_defaults ps env
      else (case dflt of
              None \<Rightarrow> Inl (TypeError (''missing required argument '' @ p))
            | Some v \<Rightarrow> bind_defaults ps (env @ [(p, v)])))"

definition bind_arguments ::
  "(string \<times> pyval option) list \<Rightarrow> pyval list \<Rightarrow> (string \<times> pyval) list \<Rightarrow> error + (string \<times> pyval) list" where
  "bind_arguments params args kwargs =
     (case bind_positional (map fst params) args of
        Inl e \<Rightarrow> Inl e
      | Inr env \<Rightarrow>
          (case bind_keywords (map fst params) env kwargs of
             Inl e \<Rightarrow> Inl e
           | Inr env' \<Rightarrow> bind_defaults params env'))"

text \<open>Lines 144 to 150: the parameters of \<^verbatim>\<open>var_hyd_char\<close> with their defaults, the
  decimal literals rounded to Python floats. The first parameter is \<^verbatim>\<open>ts\<close>; there is no
  \<^verbatim>\<open>self\<close>.\<close>

definition var_hyd_char_params :: "format \<Rightarrow> (string \<times> pyval option) list" where
  "var_hyd_char_params py =
     [(''ts'', None),
      (''method'', Some (PyStr ''mean'')),
      (''quantile'', Some (PyFloat (py (1/4)))),
      (''random_quantile'', Some (PyBool False)),
      (''quantile_bounds'', Some (PyPair (py (1/20)) (py (19/20))))]"

text \<open>
  A call of the function \<^verbatim>\<open>var_hyd_char\<close> with positional and keyword arguments: the
  arguments are bound first, then the body runs. The body compares \<^verbatim>\<open>method\<close> with the
  four tags before it touches anything else, so a \<^verbatim>\<open>method\<close> that is not a string falls
  through to the \<^verbatim>\<open>ValueError\<close> of the last branch (whose message, with the text of the
  value, is not modelled). Other bound values of other types than the documented ones are
  outside the model and reported as a \<^verbatim>\<open>TypeError\<close>.
\<close>

definition call_var_hyd_char ::
  "format \<Rightarrow> format \<Rightarrow> pyval list \<Rightarrow> (string \<times> pyval) list \<Rightarrow> rng
     \<Rightarrow> error + (fl list list \<times> rng)" where
  "call_var_hyd_char py dt args kwargs g =
     (case bind_arguments (var_hyd_char_params py) args kwargs of
        Inl e \<Rightarrow> Inl e
      | Inr env \<Rightarrow>
          (case map_of env ''method'' of
             Some (PyStr method) \<Rightarrow>
               (case (map_of env ''ts'', map_of env ''quantile'',
                      map_of env ''random_quantile'', map_of env ''quantile_bounds'') of
                  (Some (PyTensor ts), Some (PyFloat quantile),
                   Some (PyBool random_quantile), Some (PyPair lo hi)) \<Rightarrow>
                    var_hyd_char py dt ts method quantile random_quantile (lo, hi) g
                | _ \<Rightarrow> Inl (TypeError ''argument types outside the model''))
           | _ \<Rightarrow> Inl (ValueError ''Unknown method for hydrograph characteristic'')))"

text \<open>
  \<^verbatim>\<open>self.var_hyd_char(...)\<close>: the attribute is a plain function of the class, so the
  access through an instance gives a bound method, and the call passes the instance as
  the first positional argument.
\<close>

definition self_var_hyd_char ::
  "format \<Rightarrow> format \<Rightarrow> ngenLoss \<Rightarrow> pyval list \<Rightarrow> (string \<times> pyval) list \<Rightarrow> rng
     \<Rightarrow> error + (fl list list \<times> rng)" where
  "self_var_hyd_char py dt self args kwargs g =
     call_var_hyd_char py dt (PyModule self # args) kwargs g"

section \<open>The variogram term\<close>

text \<open>
  Lines 101 and 102: the pairwise differences \<^verbatim>\<open>|c[:, None] - c[None, :]| ** v\<close> of the
  rows of a \<open>[B, D]\<close> array, a \<open>[B, B, D]\<close> array. With \<open>D = 1\<close> the
  \<^verbatim>\<open>squeeze(-1)\<close> of lines 96 and 98 drops the site axis and the result is the
  \<open>[B, B]\<close> matrix; with another \<open>D\<close> the squeeze changes nothing.
\<close>

definition pairwise_abs_pow :: "format \<Rightarrow> nat \<Rightarrow> fl list list \<Rightarrow> fl list list list" where
  "pairwise_abs_pow dt v c =
     map (\<lambda>ri. map (\<lambda>rj. map (\<lambda>(a, b). fl_pow dt (fl_abs (fl_sub dt a b)) v) (zip ri rj)) c) c"

text \<open>
  Lines 101 to 110, on the two reduced arrays. The weighting by the distance matrix is
  modelled for \<open>D = 1\<close> and a matrix of the shape \<open>[B, B]\<close> of the loss matrix; other
  shapes, which torch would broadcast or reject, are reported as a shape error, as are two
  reduced arrays of different shapes.
\<close>

definition variogram_matrix_loss ::
  "format \<Rightarrow> ngenLoss \<Rightarrow> fl list list \<Rightarrow> fl list list \<Rightarrow> error + fl" where
  "variogram_matrix_loss dt self y_hat_flat y_flat =
     (if map length y_hat_flat \<noteq> map length y_flat
      then Inl (ShapeError ''reduced arrays of different shapes'')
      else
        let diff_obs = pairwise_abs_pow dt (v_order self) y_flat;
            diff_pred = pairwise_abs_pow dt (v_order self) y_hat_flat;
            loss_matrix =
              map2 (map2 (map2 (\<lambda>ob pr. fl_pow dt (fl_sub dt ob pr) 2))) diff_obs diff_pred
        in case distance_matrix self of
             None \<Rightarrow> Inr (fl_mean dt (concat (concat loss_matrix)))
           | Some weight \<Rightarrow>
               if list_all (\<lambda>r. length r = 1) y_flat
                  \<and> length weight = length y_flat
                  \<and> list_all (\<lambda>r. length r = length y_flat) weight
               then Inr (fl_mean dt (concat (concat
                      (map2 (map2 (\<lambda>ls w. map (\<lambda>l. fl_mul dt l w) ls)) loss_matrix weight))))
               else Inl (ShapeError ''distance matrix of another shape''))"

text \<open>
  Lines 88 to 110. Both reductions are calls through the instance, with the tensor as the
  only positional argument and \<^verbatim>\<open>method\<close> and \<^verbatim>\<open>random_quantile\<close> as keywords.
\<close>

definition variogram_loss ::
  "format \<Rightarrow> format \<Rightarrow> ngenLoss \<Rightarrow> fl tensor3 \<Rightarrow> fl tensor3 \<Rightarrow> bool tensor3 \<Rightarrow> rng
     \<Rightarrow> error + (fl \<times> rng)" where
  "variogram_loss py dt self y_hat y msk g =
     (let method = ''quantile'' in
      case self_var_hyd_char py dt self [PyTensor y_hat]
             [(''method'', PyStr method), (''random_quantile'', PyBool True)] g of
        Inl e \<Rightarrow> Inl e
      | Inr (y_hat_flat, g1) \<Rightarrow>
          (case self_var_hyd_char py dt self [PyTensor y]
                  [(''method'', PyStr method), (''random_quantile'', PyBool True)] g1 of
             Inl e \<Rightarrow> Inl e
           | Inr (y_flat, g2) \<Rightarrow>
               (case variogram_matrix_loss dt self y_hat_flat y_flat of
                  Inl e \<Rightarrow> Inl e
                | Inr l \<Rightarrow> Inr (l, g2))))"

section \<open>The FDC divergence term\<close>

text \<open>The mean of \<^verbatim>\<open>|xs[:, None] - ys[None, :]|\<close> over all pairs.\<close>

definition mean_abs_diff :: "format \<Rightarrow> fl list \<Rightarrow> fl list \<Rightarrow> fl" where
  "mean_abs_diff dt xs ys =
     fl_mean dt (concat (map (\<lambda>a. map (\<lambda>b. fl_abs (fl_sub dt a b)) ys) xs))"

text \<open>
  Lines 131 to 139: the divergence before the clamp, from the two sorted vectors.
\<close>

definition fdc_divergence :: "format \<Rightarrow> fl list \<Rightarrow> fl list \<Rightarrow> fl" where
  "fdc_divergence dt y_sorted y_hat_sorted =
     (let cross_var = mean_abs_diff dt y_sorted y_hat_sorted;
          within_y = mean_abs_diff dt y_sorted y_sorted;
          within_hat = mean_abs_diff dt y_hat_sorted y_hat_sorted
      in fl_sub dt cross_var (fl_mul dt (Num (1/2)) (fl_add dt within_y within_hat)))"

text \<open>
  Lines 112 to 142. Boolean indexing with a mask of another shape than the tensor raises
  an \<^verbatim>\<open>IndexError\<close>.
\<close>

definition fdc_loss ::
  "format \<Rightarrow> ngenLoss \<Rightarrow> fl tensor3 \<Rightarrow> fl tensor3 \<Rightarrow> bool tensor3 \<Rightarrow> error + fl" where
  "fdc_loss dt self y_hat y msk =
     (if shape y_hat \<noteq> shape msk \<or> shape y \<noteq> shape msk
      then Inl (IndexError ''the shape of the mask does not match the indexed tensor'')
      else
        let y_hat_flat = bool_index y_hat msk;
            y_flat = bool_index y msk
        in if length y_flat = 0 then Inr (Num 0)
           else
             let y_hat_sorted = sort_desc y_hat_flat;
                 y_sorted = sort_desc y_flat;
                 min_len = min (length y_sorted) (length y_hat_sorted);
                 y_hat_sorted = take min_len y_hat_sorted;
                 y_sorted = take min_len y_sorted
             in Inr (fl_clamp_min (fdc_divergence dt y_sorted y_hat_sorted) 0))"

section \<open>The orchestrator\<close>

text \<open>
  The callables that the class body of \<^verbatim>\<open>ngenLoss\<close> defines, by name. The base class
  \<^verbatim>\<open>nn.Module\<close> defines neither of the two names that \<^verbatim>\<open>forward\<close> looks up, and its
  \<^verbatim>\<open>__getattr__\<close> raises \<^verbatim>\<open>AttributeError\<close> for a name it does not find.
\<close>

datatype member = Forward | Variogram_loss | Fdc_loss | Var_hyd_char

definition ngenLoss_members :: "(string \<times> member) list" where
  "ngenLoss_members =
     [(''forward'', Forward),
      (''variogram_loss'', Variogram_loss),
      (''fdc_loss'', Fdc_loss),
      (''var_hyd_char'', Var_hyd_char)]"

definition getattr_member :: "string \<Rightarrow> error + member" where
  "getattr_member name =
     (case map_of ngenLoss_members name of
        None \<Rightarrow> Inl (AttributeError name)
      | Some m \<Rightarrow> Inr m)"

text \<open>
  The call \<^verbatim>\<open>m(y_hat, y, mask)\<close> of a member found on the instance. The two loss terms
  take these arguments; \<^verbatim>\<open>forward\<close> takes one fewer, and \<^verbatim>\<open>var_hyd_char\<close> binds them to
  its own parameters and does not return a scalar.
\<close>

fun call_member ::
  "format \<Rightarrow> format \<Rightarrow> member \<Rightarrow> ngenLoss \<Rightarrow> fl tensor3 \<Rightarrow> fl tensor3 \<Rightarrow> bool tensor3 \<Rightarrow> rng
     \<Rightarrow> error + (fl \<times> rng)" where
  "call_member py dt Variogram_loss self y_hat y msk g = variogram_loss py dt self y_hat y msk g"
| "call_member py dt Fdc_loss self y_hat y msk g =
     (case fdc_loss dt self y_hat y msk of Inl e \<Rightarrow> Inl e | Inr l \<Rightarrow> Inr (l, g))"
| "call_member py dt Forward self y_hat y msk g =
     Inl (TypeError ''too many positional arguments'')"
| "call_member py dt Var_hyd_char self y_hat y msk g =
     (case self_var_hyd_char py dt self [PyTensor y_hat, PyTensor y, PyMask msk] [] g of
        Inl e \<Rightarrow> Inl e
      | Inr r \<Rightarrow> Inl (TypeError ''the result is not a scalar loss''))"

text \<open>Lines 64 to 69: the validity mask, the zero substitution and the base error term.\<close>

definition masked_mse :: "format \<Rightarrow> fl tensor3 \<Rightarrow> fl tensor3 \<Rightarrow> fl" where
  "masked_mse dt y_hat0 y0 =
     (let msk = not_isnan y0;
          y_hat = tensor_where msk y_hat0 (zeros_like y_hat0);
          y = tensor_where msk y0 (zeros_like y0)
      in mse_loss_F dt (bool_index y_hat msk) (bool_index y msk))"

text \<open>
  Lines 74 to 82: one auxiliary term. The method is looked up under the name that
  \<^verbatim>\<open>forward\<close> writes, then called. \<^verbatim>\<open>loss += w * term\<close> updates the tensor in place, and
  \<^verbatim>\<open>loss\<close> is the very tensor stored under \<^verbatim>\<open>mse_loss\<close> (line 71 copies the reference),
  so that entry of the bundle changes with it.
\<close>

definition add_term ::
  "format \<Rightarrow> format \<Rightarrow> string \<Rightarrow> string \<Rightarrow> real \<Rightarrow> ngenLoss \<Rightarrow> fl tensor3 \<Rightarrow> fl tensor3
     \<Rightarrow> bool tensor3 \<Rightarrow> fl \<times> (string \<rightharpoonup> fl) \<times> rng \<Rightarrow> error + (fl \<times> (string \<rightharpoonup> fl) \<times> rng)" where
  "add_term py dt attr key w self y_hat y msk st =
     (case st of (loss, losses, g) \<Rightarrow>
        if w > 0 then
          (case getattr_member attr of
             Inl e \<Rightarrow> Inl e
           | Inr m \<Rightarrow>
               (case call_member py dt m self y_hat y msk g of
                  Inl e \<Rightarrow> Inl e
                | Inr (term, g') \<Rightarrow>
                    let loss' = fl_add dt loss (fl_mul dt (Num w) term)
                    in Inr (loss', losses(''mse_loss'' \<mapsto> loss', key \<mapsto> term), g')))
        else Inr (loss, losses, g))"

text \<open>
  Lines 41 to 86, on the two tensors \<^verbatim>\<open>prediction["y_hat"]\<close> and \<^verbatim>\<open>data["y"]\<close>, with the
  format \<open>py\<close> of Python floats and the format \<open>dt\<close> of the tensors. The result is the
  scalar loss, the bundle of named losses and the generator's new state. Tensors of two
  different shapes, which torch would broadcast or reject, are reported as a shape error.
\<close>

definition forward ::
  "format \<Rightarrow> format \<Rightarrow> ngenLoss \<Rightarrow> fl tensor3 \<Rightarrow> fl tensor3 \<Rightarrow> rng
     \<Rightarrow> error + (fl \<times> (string \<rightharpoonup> fl) \<times> rng)" where
  "forward py dt self y_hat0 y0 g =
     (if shape y_hat0 \<noteq> shape y0 then Inl (ShapeError ''prediction and observation shapes'')
      else
        let msk = not_isnan y0;
            y_hat = tensor_where msk y_hat0 (zeros_like y_hat0);
            y = tensor_where msk y0 (zeros_like y0);
            mse_loss = mse_loss_F dt (bool_index y_hat msk) (bool_index y msk);
            loss = mse_loss;
            losses = [''mse_loss'' \<mapsto> mse_loss]
        in case add_term py dt ''_variogram_loss'' ''variogram_loss'' (variogram_weight self)
                  self y_hat y msk (loss, losses, g) of
             Inl e \<Rightarrow> Inl e
           | Inr st \<Rightarrow>
               (case add_term py dt ''_fdc_loss'' ''fdc_loss'' (fdc_weight self)
                       self y_hat y msk st of
                  Inl e \<Rightarrow> Inl e
                | Inr (loss', losses', g') \<Rightarrow> Inr (loss', losses'(''total_loss'' \<mapsto> loss'), g')))"

text \<open>
  For stating properties: the pairs of a prediction and its observation at the positions
  where the observation is not \<open>NaN\<close>, in row-major order.
\<close>

definition valid_pairs :: "fl tensor3 \<Rightarrow> fl tensor3 \<Rightarrow> (fl \<times> fl) list" where
  "valid_pairs y_hat y = filter (\<lambda>(x, v). v \<noteq> NaN) (zip (elems y_hat) (elems y))"

text \<open>For stating properties: a finite number, neither \<open>NaN\<close> nor an infinity.\<close>

definition is_finite :: "fl \<Rightarrow> bool" where
  "is_finite x = (case x of Num a \<Rightarrow> True | _ \<Rightarrow> False)"

section \<open>Attribute lookup and the outcomes of the orchestrator\<close>

lemma getattr_variogram:
  "getattr_member ''_variogram_loss'' = Inl (AttributeError ''_variogram_loss'')"
  by (simp add: getattr_member_def ngenLoss_members_def)

lemma getattr_fdc:
  "getattr_member ''_fdc_loss'' = Inl (AttributeError ''_fdc_loss'')"
  by (simp add: getattr_member_def ngenLoss_members_def)

text \<open>With both auxiliary terms disabled the orchestrator returns the base error term as
  the loss, under both names of the bundle, and leaves the generator alone.\<close>

lemma forward_zero_weights:
  assumes "shape y_hat = shape y" "\<not> variogram_weight self > 0" "\<not> fdc_weight self > 0"
  shows "forward py dt self y_hat y g =
    Inr (masked_mse dt y_hat y,
         [''mse_loss'' \<mapsto> masked_mse dt y_hat y, ''total_loss'' \<mapsto> masked_mse dt y_hat y], g)"
  using assms by (simp add: forward_def add_term_def masked_mse_def Let_def)

text \<open>With an auxiliary term enabled the lookup of its method fails, after the base error
  term has been computed.\<close>

lemma forward_variogram_enabled:
  assumes "shape y_hat = shape y" "variogram_weight self > 0"
  shows "forward py dt self y_hat y g = Inl (AttributeError ''_variogram_loss'')"
  using assms by (simp add: forward_def add_term_def getattr_variogram Let_def)

lemma forward_fdc_enabled:
  assumes "shape y_hat = shape y" "\<not> variogram_weight self > 0" "fdc_weight self > 0"
  shows "forward py dt self y_hat y g = Inl (AttributeError ''_fdc_loss'')"
  using assms by (simp add: forward_def add_term_def getattr_fdc Let_def)

section \<open>The loss bundle (C1)\<close>

text \<open>
  C1. The claim: for same-shape inputs with a valid observation the bundle holds
  \<open>mse_loss\<close> and \<open>total_loss\<close>, holds \<open>variogram_loss\<close> exactly when the variogram
  weight is positive and \<open>fdc_loss\<close> exactly when the FDC weight is positive, and
  \<open>total_loss\<close> is \<open>mse_loss\<close> plus the weighted enabled terms.

  On the code, \<^verbatim>\<open>forward\<close> looks the two terms up as \<^verbatim>\<open>self._variogram_loss\<close> and
  \<^verbatim>\<open>self._fdc_loss\<close>, while the class defines \<^verbatim>\<open>variogram_loss\<close> and \<^verbatim>\<open>fdc_loss\<close>.
  Evaluated with \<open>y_hat = y = [[[1.0]]]\<close>: with the variogram weight 1 the call raises
  \<^verbatim>\<open>AttributeError\<close> for \<^verbatim>\<open>_variogram_loss\<close>, with the FDC weight 1 it raises it for
  \<^verbatim>\<open>_fdc_loss\<close>; no bundle is returned in either case.
\<close>

theorem forward_enabled_term_raises:
  "forward exact_format exact_format
     \<lparr>distance_matrix = None, variogram_weight = 1, fdc_weight = 0, v_order = 2\<rparr>
     \<lparr>dimB = 1, dimT = 1, dimD = 1, elems = [Num 1]\<rparr>
     \<lparr>dimB = 1, dimT = 1, dimD = 1, elems = [Num 1]\<rparr> (\<lambda>n. 0)
     = Inl (AttributeError ''_variogram_loss'')
   \<and> forward exact_format exact_format
     \<lparr>distance_matrix = None, variogram_weight = 0, fdc_weight = 1, v_order = 2\<rparr>
     \<lparr>dimB = 1, dimT = 1, dimD = 1, elems = [Num 1]\<rparr>
     \<lparr>dimB = 1, dimT = 1, dimD = 1, elems = [Num 1]\<rparr> (\<lambda>n. 0)
     = Inl (AttributeError ''_fdc_loss'')"
  by (simp add: forward_def add_term_def getattr_member_def ngenLoss_members_def shape_def)

section \<open>The reducer's unknown method (C8)\<close>

text \<open>
  C8. For every method tag other than \<open>mean\<close>, \<open>median\<close>, \<open>std\<close> and \<open>quantile\<close> the
  reducer raises \<^verbatim>\<open>ValueError\<close> with the tag in its message, whatever the tensor, the
  quantile arguments, the generator and the formats are; the result is the error alone,
  and the generator is not advanced.
\<close>

theorem var_hyd_char_unknown_method:
  assumes "method \<notin> {''mean'', ''median'', ''std'', ''quantile''}"
  shows "var_hyd_char py dt ts method quantile random_quantile quantile_bounds g
         = Inl (ValueError (''Unknown method for hydrograph characteristic: '' @ method))"
  using assms by (simp add: var_hyd_char_def)

theorem var_hyd_char_unknown_method_witness:
  "''max'' \<notin> {''mean'', ''median'', ''std'', ''quantile''}
   \<and> var_hyd_char exact_format exact_format
        \<lparr>dimB = 1, dimT = 2, dimD = 1, elems = [Num 1, Num 2]\<rparr>
        ''max'' (Num (1/4)) False (Num (1/20), Num (19/20)) (\<lambda>n. 0)
      = Inl (ValueError ''Unknown method for hydrograph characteristic: max'')"
  using var_hyd_char_unknown_method
    [of "''max''" exact_format exact_format
        "\<lparr>dimB = 1, dimT = 2, dimD = 1, elems = [Num 1, Num 2]\<rparr>"
        "Num (1/4)" False "(Num (1/20), Num (19/20))" "\<lambda>n. 0"]
  by simp

section \<open>The reducer called through the instance (C9)\<close>

text \<open>
  C9. \<^verbatim>\<open>var_hyd_char\<close> has no \<^verbatim>\<open>self\<close> parameter. In the call
  \<^verbatim>\<open>self.var_hyd_char(y_hat, method=method, random_quantile=True)\<close> the instance is bound
  to \<^verbatim>\<open>ts\<close> and the tensor to \<^verbatim>\<open>method\<close>, so the keyword \<^verbatim>\<open>method\<close> names a parameter
  that has a value already: the call raises \<^verbatim>\<open>TypeError\<close> while the arguments are bound,
  before the body runs, and \<^verbatim>\<open>variogram_loss\<close> raises it for every instance, every
  input and every state of the generator.
\<close>

theorem variogram_loss_raises_TypeError:
  "bind_positional (map fst (var_hyd_char_params py)) [PyModule self, PyTensor y_hat]
     = Inr [(''ts'', PyModule self), (''method'', PyTensor y_hat)]
   \<and> self_var_hyd_char py dt self [PyTensor y_hat]
        [(''method'', PyStr ''quantile''), (''random_quantile'', PyBool True)] g
     = Inl (TypeError ''multiple values for argument method'')
   \<and> variogram_loss py dt self y_hat y msk g
     = Inl (TypeError ''multiple values for argument method'')"
  by (simp add: variogram_loss_def self_var_hyd_char_def call_var_hyd_char_def
      bind_arguments_def var_hyd_char_params_def)

section \<open>The variogram term on equal arrays (C3)\<close>

text \<open>
  C3. The claim: when \<open>y_hat\<close> equals \<open>y\<close> at every position the variogram term returns
  0, the two pairwise difference matrices being pointwise equal.

  On the code the term returns nothing. Evaluated with \<open>y_hat = y\<close> of shape \<open>[2, 3, 1]\<close>
  holding the series \<open>1, 2, 3\<close> and \<open>1, 1, 1\<close>, \<^verbatim>\<open>variogram_loss\<close> raises the
  \<^verbatim>\<open>TypeError\<close> of its first reduction, the reducer being called through the instance
  while it has no \<^verbatim>\<open>self\<close> parameter; lines 101 to 110, which build the two matrices
  and their mean, are never reached.
\<close>

theorem variogram_loss_equal_arrays_raises:
  "variogram_loss exact_format exact_format
     \<lparr>distance_matrix = None, variogram_weight = 1, fdc_weight = 0, v_order = 2\<rparr>
     \<lparr>dimB = 2, dimT = 3, dimD = 1, elems = [Num 1, Num 2, Num 3, Num 1, Num 1, Num 1]\<rparr>
     \<lparr>dimB = 2, dimT = 3, dimD = 1, elems = [Num 1, Num 2, Num 3, Num 1, Num 1, Num 1]\<rparr>
     \<lparr>dimB = 2, dimT = 3, dimD = 1, elems = [True, True, True, True, True, True]\<rparr>
     (\<lambda>n. 0)
   = Inl (TypeError ''multiple values for argument method'')"
  by (simp add: variogram_loss_def self_var_hyd_char_def call_var_hyd_char_def
      bind_arguments_def var_hyd_char_params_def)

section \<open>Masking and the base error term\<close>

lemma select_where_hat:
  "length a = length ys \<Longrightarrow>
   map fst (filter snd (zip (map (\<lambda>(m, x, z). if m then x else z)
        (zip (map f ys) (zip a (map (\<lambda>v. Num 0) a)))) (map f ys)))
   = map fst (filter (\<lambda>(x, v). f v) (zip a ys))"
  by (induction a ys rule: list_induct2) auto

lemma select_where_obs:
  "length a = length ys \<Longrightarrow>
   map fst (filter snd (zip (map (\<lambda>(m, x, z). if m then x else z)
        (zip (map f ys) (zip ys (map (\<lambda>v. Num 0) ys)))) (map f ys)))
   = map snd (filter (\<lambda>(x, v). f v) (zip a ys))"
  by (induction a ys rule: list_induct2) auto

lemma zip_fst_snd: "zip (map fst ps) (map snd ps) = ps"
  by (induction ps) auto

text \<open>Selecting by the mask from the zero-substituted arrays is selecting from the
  originals.\<close>

lemma bool_index_hat:
  assumes "length (elems y_hat) = length (elems y)"
  shows "bool_index (tensor_where (not_isnan y) y_hat (zeros_like y_hat)) (not_isnan y)
         = map fst (valid_pairs y_hat y)"
  unfolding bool_index_def tensor_where_def not_isnan_def zeros_like_def valid_pairs_def
  using select_where_hat [OF assms, of "\<lambda>v. v \<noteq> NaN"] by simp

lemma bool_index_obs:
  assumes "length (elems y_hat) = length (elems y)"
  shows "bool_index (tensor_where (not_isnan y) y (zeros_like y)) (not_isnan y)
         = map snd (valid_pairs y_hat y)"
  unfolding bool_index_def tensor_where_def not_isnan_def zeros_like_def valid_pairs_def
  using select_where_obs [OF assms, of "\<lambda>v. v \<noteq> NaN"] by simp

lemma masked_mse_pairs:
  assumes "length (elems y_hat) = length (elems y)"
  shows "masked_mse dt y_hat y
         = fl_mean dt (map (\<lambda>(a, b). fl_pow dt (fl_sub dt a b) 2) (valid_pairs y_hat y))"
  unfolding masked_mse_def Let_def mse_loss_F_def
  by (simp only: bool_index_hat [OF assms] bool_index_obs [OF assms] zip_fst_snd)

lemma wf_same_length:
  "wf_tensor a \<Longrightarrow> wf_tensor b \<Longrightarrow> shape a = shape b \<Longrightarrow> length (elems a) = length (elems b)"
  by (simp add: wf_tensor_def shape_def)

lemma filter_zip_agree:
  "length a = length b \<Longrightarrow> length b = length ys \<Longrightarrow>
   \<forall>i<length ys. P (ys ! i) \<longrightarrow> a ! i = b ! i \<Longrightarrow>
   filter (\<lambda>(x, v). P v) (zip a ys) = filter (\<lambda>(x, v). P v) (zip b ys)"
proof (induction a b ys rule: list_induct3)
  case Nil
  then show ?case by simp
next
  case (Cons x xs y ys z zs)
  from Cons.prems have hd: "P z \<longrightarrow> x = y" by auto
  from Cons.prems have tl: "\<forall>i<length zs. P (zs ! i) \<longrightarrow> xs ! i = ys ! i" by auto
  from Cons.IH [OF tl] hd show ?case by simp
qed



lemma valid_pairs_all_NaN:
  assumes "\<forall>v\<in>set (elems y). v = NaN"
  shows "valid_pairs y_hat y = []"
  unfolding valid_pairs_def filter_empty_conv
  using assms by (auto dest: set_zip_rightD)

section \<open>No valid target (C2)\<close>

text \<open>
  C2. The claim: when every entry of \<open>y\<close> is \<open>NaN\<close>, \<^verbatim>\<open>forward\<close> fails with an explicit
  error about the missing targets and does not return \<open>NaN\<close>.

  The code has no such check. With \<open>y_hat = [[[1.0]]]\<close>, \<open>y = [[[NaN]]]\<close> and both
  auxiliary weights zero, \<^verbatim>\<open>forward\<close> returns normally, and both \<open>mse_loss\<close> and
  \<open>total_loss\<close> are \<open>NaN\<close> (the mean of an empty selection).
\<close>

theorem forward_no_valid_target_counterexample:
  "forward exact_format exact_format \<lparr>distance_matrix = None, variogram_weight = 0, fdc_weight = 0, v_order = 2\<rparr>
     \<lparr>dimB = 1, dimT = 1, dimD = 1, elems = [Num 1]\<rparr>
     \<lparr>dimB = 1, dimT = 1, dimD = 1, elems = [NaN]\<rparr> (\<lambda>n. 0)
   = Inr (NaN, [''mse_loss'' \<mapsto> NaN, ''total_loss'' \<mapsto> NaN], \<lambda>n. 0)"
  by (simp add: forward_def add_term_def shape_def not_isnan_def tensor_where_def
      zeros_like_def bool_index_def mse_loss_F_def fl_mean_def)

text \<open>
  C2, as amended. For every pair of well-formed tensors of one shape in which every entry
  of \<open>y\<close> is \<open>NaN\<close>, and with both auxiliary weights not positive, \<^verbatim>\<open>forward\<close> raises no
  error: it returns \<open>NaN\<close> as the loss and as both \<open>mse_loss\<close> and \<open>total_loss\<close>.
\<close>

theorem forward_no_valid_target_returns_NaN:
  assumes "wf_tensor y" "wf_tensor y_hat" "shape y_hat = shape y"
    and "\<forall>v\<in>set (elems y). v = NaN"
    and "\<not> variogram_weight self > 0" "\<not> fdc_weight self > 0"
  shows "forward py dt self y_hat y g
         = Inr (NaN, [''mse_loss'' \<mapsto> NaN, ''total_loss'' \<mapsto> NaN], g)"
proof -
  have l: "length (elems y_hat) = length (elems y)"
    by (rule wf_same_length [OF assms(2) assms(1) assms(3)])
  have "masked_mse dt y_hat y = NaN"
    by (simp add: masked_mse_pairs [OF l] valid_pairs_all_NaN [OF assms(4)] fl_mean_def)
  then show ?thesis
    by (simp add: forward_zero_weights [OF assms(3) assms(5) assms(6)])
qed

theorem forward_no_valid_target_returns_NaN_witness:
  "forward exact_format exact_format \<lparr>distance_matrix = None, variogram_weight = 0, fdc_weight = 0, v_order = 2\<rparr>
     \<lparr>dimB = 1, dimT = 2, dimD = 1, elems = [Num 4, Num 5]\<rparr>
     \<lparr>dimB = 1, dimT = 2, dimD = 1, elems = [NaN, NaN]\<rparr> (\<lambda>n. 0)
   = Inr (NaN, [''mse_loss'' \<mapsto> NaN, ''total_loss'' \<mapsto> NaN], \<lambda>n. 0)"
proof -
  let ?y = "\<lparr>dimB = 1, dimT = 2, dimD = 1, elems = [NaN, NaN]\<rparr>"
  let ?a = "\<lparr>dimB = 1, dimT = 2, dimD = 1, elems = [Num 4, Num 5]\<rparr>"
  let ?c = "\<lparr>distance_matrix = None, variogram_weight = 0, fdc_weight = 0, v_order = 2\<rparr>"
  have w: "wf_tensor ?y" "wf_tensor ?a"
    by (simp_all add: wf_tensor_def)
  have sh: "shape ?a = shape ?y"
    by (simp add: shape_def)
  have n: "\<forall>v\<in>set (elems ?y). v = NaN"
    by simp
  have z: "\<not> variogram_weight ?c > 0" "\<not> fdc_weight ?c > 0"
    by simp_all
  from forward_no_valid_target_returns_NaN
         [OF w sh n z, where py = exact_format and dt = exact_format and g = "\<lambda>n. 0"]
  show ?thesis .
qed

section \<open>The mask depends on the observations alone (C5)\<close>

text \<open>
  C5. Let \<open>y\<close> be an observation tensor and \<open>y_hat1\<close>, \<open>y_hat2\<close> two prediction tensors
  of its shape that agree at every (row-major) position where \<open>y\<close> is not \<open>NaN\<close>. Then
  the base error term that lines 64 to 69 compute is the same for both, and so is the
  whole outcome of \<^verbatim>\<open>forward\<close> (the loss, the bundle with its \<open>mse_loss\<close>, or the error),
  for every configuration.
\<close>

theorem masked_mse_ignores_masked_predictions:
  assumes "wf_tensor y" "wf_tensor y_hat1" "wf_tensor y_hat2"
    and "shape y_hat1 = shape y" "shape y_hat2 = shape y"
    and "\<forall>i<length (elems y). elems y ! i \<noteq> NaN \<longrightarrow> elems y_hat1 ! i = elems y_hat2 ! i"
  shows "masked_mse dt y_hat1 y = masked_mse dt y_hat2 y
       \<and> forward py dt self y_hat1 y g = forward py dt self y_hat2 y g"
proof -
  have l1: "length (elems y_hat1) = length (elems y)"
    by (rule wf_same_length [OF assms(2) assms(1) assms(4)])
  have l2: "length (elems y_hat2) = length (elems y)"
    by (rule wf_same_length [OF assms(3) assms(1) assms(5)])
  have l12: "length (elems y_hat1) = length (elems y_hat2)"
    using l1 l2 by simp
  have "valid_pairs y_hat1 y = valid_pairs y_hat2 y"
    unfolding valid_pairs_def
    by (rule filter_zip_agree [OF l12 l2, of "\<lambda>v. v \<noteq> NaN"]) (rule assms(6))
  then have m: "masked_mse dt y_hat1 y = masked_mse dt y_hat2 y"
    by (simp only: masked_mse_pairs [OF l1] masked_mse_pairs [OF l2])
  have "forward py dt self y_hat1 y g = forward py dt self y_hat2 y g"
  proof (cases "variogram_weight self > 0")
    case True
    show ?thesis
      by (simp only: forward_variogram_enabled [OF assms(4) True]
          forward_variogram_enabled [OF assms(5) True])
  next
    case False
    note nv = this
    show ?thesis
    proof (cases "fdc_weight self > 0")
      case True
      show ?thesis
        by (simp only: forward_fdc_enabled [OF assms(4) nv True]
            forward_fdc_enabled [OF assms(5) nv True])
    next
      case False
      show ?thesis
        by (simp only: forward_zero_weights [OF assms(4) nv False]
            forward_zero_weights [OF assms(5) nv False] m)
    qed
  qed
  with m show ?thesis by simp
qed

theorem masked_mse_ignores_masked_predictions_witness:
  "masked_mse exact_format \<lparr>dimB = 1, dimT = 2, dimD = 1, elems = [Num 7, Num 3]\<rparr>
              \<lparr>dimB = 1, dimT = 2, dimD = 1, elems = [NaN, Num 2]\<rparr>
   = masked_mse exact_format \<lparr>dimB = 1, dimT = 2, dimD = 1, elems = [NaN, Num 3]\<rparr>
                \<lparr>dimB = 1, dimT = 2, dimD = 1, elems = [NaN, Num 2]\<rparr>
   \<and> masked_mse exact_format \<lparr>dimB = 1, dimT = 2, dimD = 1, elems = [Num 7, Num 3]\<rparr>
                \<lparr>dimB = 1, dimT = 2, dimD = 1, elems = [NaN, Num 2]\<rparr> = Num 1"
proof -
  let ?y = "\<lparr>dimB = 1, dimT = 2, dimD = 1, elems = [NaN, Num 2]\<rparr>"
  let ?a = "\<lparr>dimB = 1, dimT = 2, dimD = 1, elems = [Num 7, Num 3]\<rparr>"
  let ?b = "\<lparr>dimB = 1, dimT = 2, dimD = 1, elems = [NaN, Num 3]\<rparr>"
  have w: "wf_tensor ?y" "wf_tensor ?a" "wf_tensor ?b"
    by (simp_all add: wf_tensor_def)
  have sh: "shape ?a = shape ?y" "shape ?b = shape ?y"
    by (simp_all add: shape_def)
  have ag: "\<forall>i<length (elems ?y). elems ?y ! i \<noteq> NaN \<longrightarrow> elems ?a ! i = elems ?b ! i"
    by (simp add: less_Suc_eq)
  have v: "masked_mse exact_format ?a ?y = Num 1"
    by (simp add: masked_mse_def bool_index_def tensor_where_def not_isnan_def zeros_like_def
        mse_loss_F_def fl_mean_def fl_sum_def fl_sub_def fl_pow_def exact_format_def)
  from masked_mse_ignores_masked_predictions [OF w sh ag, where dt = exact_format] v
  show ?thesis by simp
qed

section \<open>A missing prediction at a valid position (C10)\<close>




section \<open>The quantile method of the reducer (C4)\<close>

lemma sort_desc_mset: "mset (sort_desc xs) = mset xs"
  by (simp add: sort_desc_def)

lemma sort_desc_sorted: "sorted_wrt (\<lambda>a b. b \<le> a) (sort_desc xs)"
  by (simp add: sort_desc_def sorted_wrt_rev)

lemma reduce_time_nth:
  "b < dimB ts \<Longrightarrow> d < dimD ts \<Longrightarrow> reduce_time f ts ! b ! d = f (series ts b d)"
  by (simp add: reduce_time_def)

lemma quantile_index_range:
  "0 < T \<Longrightarrow> 0 \<le> quantile_index p T \<and> quantile_index p T < int T"
  by (simp add: quantile_index_def)

lemma quantile_index_floor:
  assumes "0 \<le> p" "0 < T"
  shows "quantile_index p T = min \<lfloor>p\<rfloor> (int T - 1)"
proof -
  have "0 \<le> \<lfloor>p\<rfloor>" using assms(1) by simp
  moreover have "py_int p = \<lfloor>p\<rfloor>" using assms(1) by (simp add: py_int_def)
  ultimately show ?thesis using assms(2) by (simp add: quantile_index_def)
qed

text \<open>
  C4. The claim: the quantile method sorts the time axis descending and reads the index
  \<open>clamp(round(q * T), 0, T - 1)\<close>, rounding and not truncating.

  The code computes the index with \<^verbatim>\<open>int(quantile * ts.shape[1])\<close>, which truncates the
  product. At the default level \<open>q = 0.25\<close> and \<open>T = 3\<close> the product is \<open>0.75\<close>, exactly:
  the code reads index 0, the rounded index is 1. On the series \<open>1, 2, 3\<close> the code
  returns 3, the largest value, where the rounded index would give 2.
\<close>

theorem quantile_index_rounds_counterexample:
  "fl_mul exact_format (Num (1/4)) (Num 3) = Num (3/4)
   \<and> quantile_index (3/4) 3 = 0 \<and> quantile_index_spec (3/4) 3 = 1
   \<and> var_hyd_char exact_format exact_format
        \<lparr>dimB = 1, dimT = 3, dimD = 1, elems = [Num 1, Num 2, Num 3]\<rparr>
        ''quantile'' (Num (1/4)) False (Num (1/20), Num (19/20)) (\<lambda>n. 0)
      = Inr ([[Num 3]], \<lambda>n. 0)
   \<and> sort_desc [Num 1, Num 2, Num 3] ! nat (quantile_index_spec (3/4) 3) = Num 2"
  by (simp add: var_hyd_char_def quantile_index_def quantile_index_spec_def py_int_def round_def
        reduce_time_def series_def at3_def sort_desc_def upt_rec exact_format_def)

text \<open>
  C4, as amended. Let \<open>q'\<close> be the quantile level in use (the argument, or the value
  \<^verbatim>\<open>random.uniform\<close> returns when \<^verbatim>\<open>random_quantile\<close> is set), and let \<open>p\<close> be the finite
  value of the floating-point product \<^verbatim>\<open>q' * T\<close> as Python rounds it; the product of a
  level in \<open>[0, 1]\<close> is such a value, and is not negative. On a time axis of length
  \<open>T > 0\<close> the quantile method returns, for every example \<open>b\<close> and site \<open>d\<close>, the entry
  at index \<open>clamp(int(p), 0, T - 1)\<close> of the series sorted descending, where the sorted
  series is a rearrangement of the series in descending order; for \<open>p \<ge> 0\<close> the index is
  \<open>min(floor(p), T - 1)\<close>. This is nearest rank by truncation of the rounded product,
  without interpolation. (At \<open>q' = 0.3333333333333333\<close> and \<open>T = 3\<close> the product rounds
  to \<open>1.0\<close> and the index is 1.) On an empty time axis the read of index 0 raises
  \<^verbatim>\<open>IndexError\<close>.
\<close>

theorem var_hyd_char_quantile_truncates:
  assumes "(q', g') = (if random_quantile then random_uniform py lo hi g else (quantile, g))"
    and "fl_mul py q' (Num (real (dimT ts))) = Num p"
  shows "var_hyd_char py dt ts ''quantile'' quantile random_quantile (lo, hi) g
         = (if dimT ts = 0 then Inl (IndexError ''index out of range for the time axis'')
            else Inr (reduce_time
                   (\<lambda>xs. sort_desc xs ! nat (max 0 (min (py_int p) (int (dimT ts) - 1)))) ts, g'))
       \<and> (0 < dimT ts \<longrightarrow> nat (max 0 (min (py_int p) (int (dimT ts) - 1))) < dimT ts)
       \<and> (0 < dimT ts \<and> 0 \<le> p \<longrightarrow>
            max 0 (min (py_int p) (int (dimT ts) - 1)) = min \<lfloor>p\<rfloor> (int (dimT ts) - 1))
       \<and> (\<forall>b<dimB ts. \<forall>d<dimD ts.
            reduce_time (\<lambda>xs. sort_desc xs ! nat (max 0 (min (py_int p) (int (dimT ts) - 1)))) ts
              ! b ! d
            = sort_desc (series ts b d) ! nat (max 0 (min (py_int p) (int (dimT ts) - 1)))
            \<and> mset (sort_desc (series ts b d)) = mset (series ts b d)
            \<and> sorted_wrt (\<lambda>a b. b \<le> a) (sort_desc (series ts b d)))"
proof -
  have sel: "(if random_quantile then random_uniform py (fst (lo, hi)) (snd (lo, hi)) g
              else (quantile, g)) = (q', g')"
    using assms(1) by simp
  have a: "var_hyd_char py dt ts ''quantile'' quantile random_quantile (lo, hi) g
         = (if dimT ts = 0 then Inl (IndexError ''index out of range for the time axis'')
            else Inr (reduce_time
                   (\<lambda>xs. sort_desc xs ! nat (max 0 (min (py_int p) (int (dimT ts) - 1)))) ts, g'))"
  proof (cases "dimT ts = 0")
    case True
    then show ?thesis
      unfolding var_hyd_char_def sel Let_def using assms(2)
      by (simp add: quantile_index_def)
  next
    case False
    then have pos: "0 < dimT ts" by simp
    have "quantile_index p (dimT ts) < int (dimT ts)"
      using quantile_index_range [OF pos] by simp
    then show ?thesis
      unfolding var_hyd_char_def sel Let_def
      using False assms(2) by (simp add: quantile_index_def)
  qed
  have b: "0 < dimT ts \<longrightarrow> nat (max 0 (min (py_int p) (int (dimT ts) - 1))) < dimT ts"
    by auto
  have c: "0 < dimT ts \<and> 0 \<le> p \<longrightarrow>
            max 0 (min (py_int p) (int (dimT ts) - 1)) = min \<lfloor>p\<rfloor> (int (dimT ts) - 1)"
    using quantile_index_floor [of p "dimT ts"] by (simp add: quantile_index_def)
  show ?thesis
    using a b c by (simp add: reduce_time_nth sort_desc_mset sort_desc_sorted)
qed

theorem var_hyd_char_quantile_truncates_witness:
  "var_hyd_char exact_format exact_format
        \<lparr>dimB = 1, dimT = 3, dimD = 1, elems = [Num 1, Num 2, Num 3]\<rparr>
        ''quantile'' (Num (3/4)) False (Num (1/20), Num (19/20)) (\<lambda>n. 0)
   = Inr ([[Num 1]], \<lambda>n. 0)"
proof -
  let ?ts = "\<lparr>dimB = 1, dimT = 3, dimD = 1, elems = [Num 1, Num 2, Num 3]\<rparr>"
  have h: "(Num (3/4), \<lambda>n::nat. 0::real)
           = (if False then random_uniform exact_format (Num (1/20)) (Num (19/20)) (\<lambda>n. 0)
              else (Num (3/4), \<lambda>n. 0))"
    by simp
  have p: "fl_mul exact_format (Num (3/4)) (Num (real (dimT ?ts))) = Num (9/4)"
    by (simp add: exact_format_def)
  from var_hyd_char_quantile_truncates [OF h p, where dt = exact_format]
  show ?thesis
    by (simp add: reduce_time_def series_def at3_def sort_desc_def upt_rec py_int_def)
qed

section \<open>The FDC divergence term: helper facts\<close>

lemma length_sort_desc: "length (sort_desc xs) = length xs"
  by (simp add: sort_desc_def)

lemma sort_desc_cong: "mset xs = mset ys \<Longrightarrow> sort_desc xs = sort_desc ys"
  unfolding sort_desc_def
  by (metis sorted_list_of_multiset_mset)

lemma length_select:
  "length a = length m \<Longrightarrow> length (filter snd (zip a m)) = length (filter id m)"
  by (induction a m rule: list_induct2) auto

lemma length_bool_index:
  "length (elems t) = length (elems msk) \<Longrightarrow>
   length (bool_index t msk) = length (filter id (elems msk))"
  unfolding bool_index_def by (simp add: length_select)

lemma wf_bool_index_length:
  assumes "wf_tensor y_hat" "wf_tensor y" "wf_tensor msk"
    and "shape y_hat = shape msk" "shape y = shape msk"
  shows "length (bool_index y_hat msk) = length (bool_index y msk)"
proof -
  have "length (elems y_hat) = length (elems msk)" "length (elems y) = length (elems msk)"
    using assms by (simp_all add: wf_tensor_def shape_def)
  then show ?thesis by (simp add: length_bool_index)
qed

text \<open>On well-formed tensors of the mask's shape the truncation of lines 127 to 129 changes
  nothing: the term is the clamped divergence of the two sorted selections.\<close>

lemma fdc_pooled:
  assumes "shape y_hat = shape msk" "shape y = shape msk"
    and "length (bool_index y_hat msk) = length (bool_index y msk)"
    and "bool_index y msk \<noteq> []"
  shows "fdc_loss dt self y_hat y msk =
    Inr (fl_clamp_min
          (fdc_divergence dt (sort_desc (bool_index y msk)) (sort_desc (bool_index y_hat msk))) 0)"
  using assms by (simp add: fdc_loss_def Let_def length_sort_desc)

lemma fdc_empty:
  assumes "shape y_hat = shape msk" "shape y = shape msk" "bool_index y msk = []"
  shows "fdc_loss dt self y_hat y msk = Inr (Num 0)"
  using assms by (simp add: fdc_loss_def Let_def)



lemma fl_add_no_NaN:
  assumes "\<forall>x. dt x \<noteq> NaN"
  shows "fl_add dt (Num a) (Num b) \<noteq> NaN"
  using assms by simp


lemma fl_mean_representable:
  assumes "wf_format dt" "fl_mean dt xs = Num w"
  shows "dt w = Num w"
proof -
  from assms(2) have ne: "xs \<noteq> []" by (auto simp: fl_mean_def)
  with assms(2) have d: "fl_div_count dt (fl_sum dt xs) (length xs) = Num w"
    by (simp add: fl_mean_def)
  from ne have len: "length xs \<noteq> 0" by simp
  from d len obtain a where "dt (a / real (length xs)) = Num w"
    by (cases "fl_sum dt xs") (auto split: if_splits)
  with assms(1) show ?thesis unfolding wf_format_def by blast
qed


section \<open>The FDC divergence is floored at zero (C6)\<close>




section \<open>The FDC divergence of a rearrangement (C7)\<close>

text \<open>
  C7. The claim: whenever the valid entries of \<open>y_hat\<close> and of \<open>y\<close> are the same
  multiset, the FDC divergence term returns exactly 0.

  An infinity is a valid entry (it is not \<open>NaN\<close>). With \<open>y_hat = y = [[[inf]]]\<close> the
  two selections are the same multiset, every pairwise difference is \<open>|inf - inf|\<close>, a
  \<open>NaN\<close>, and the term is \<open>NaN\<close>, not 0.
\<close>

theorem fdc_loss_rearrangement_counterexample:
  "not_isnan \<lparr>dimB = 1, dimT = 1, dimD = 1, elems = [PInf]\<rparr>
     = \<lparr>dimB = 1, dimT = 1, dimD = 1, elems = [True]\<rparr>
   \<and> mset (bool_index \<lparr>dimB = 1, dimT = 1, dimD = 1, elems = [PInf]\<rparr>
                      \<lparr>dimB = 1, dimT = 1, dimD = 1, elems = [True]\<rparr>)
     = mset (bool_index \<lparr>dimB = 1, dimT = 1, dimD = 1, elems = [PInf]\<rparr>
                        \<lparr>dimB = 1, dimT = 1, dimD = 1, elems = [True]\<rparr>)
   \<and> fdc_loss exact_format
       \<lparr>distance_matrix = None, variogram_weight = 0, fdc_weight = 1, v_order = 2\<rparr>
       \<lparr>dimB = 1, dimT = 1, dimD = 1, elems = [PInf]\<rparr>
       \<lparr>dimB = 1, dimT = 1, dimD = 1, elems = [PInf]\<rparr>
       \<lparr>dimB = 1, dimT = 1, dimD = 1, elems = [True]\<rparr>
     = Inr NaN"
  by (simp add: fdc_loss_def fdc_divergence_def shape_def bool_index_def sort_desc_def
      mean_abs_diff_def fl_mean_def fl_sum_def fl_sub_def not_isnan_def exact_format_def)

text \<open>
  C7, as amended. For well-formed prediction and observation tensors and a mask of their
  shape, in a binary format: when the mask-selected entries of \<open>y_hat\<close> and of \<open>y\<close> are
  the same multiset, that is, the pooled values are a rearrangement of each other across
  time and sites, and the mean absolute difference over all pairs of the selected values
  is finite and its double does not overflow, the FDC divergence term returns exactly 0,
  whatever the temporal order; so does the empty selection. Finite means exclude \<open>NaN\<close>
  and infinite entries and an overflow of the differences or of their sum.
\<close>

theorem fdc_loss_zero_on_rearrangement:
  assumes "wf_tensor y_hat" "wf_tensor y" "wf_tensor msk"
    and "shape y_hat = shape msk" "shape y = shape msk"
    and "wf_format dt"
    and "mset (bool_index y_hat msk) = mset (bool_index y msk)"
    and "bool_index y msk = []
         \<or> (is_finite (mean_abs_diff dt (sort_desc (bool_index y msk))
                                       (sort_desc (bool_index y msk)))
            \<and> is_finite (fl_add dt
                 (mean_abs_diff dt (sort_desc (bool_index y msk)) (sort_desc (bool_index y msk)))
                 (mean_abs_diff dt (sort_desc (bool_index y msk)) (sort_desc (bool_index y msk)))))"
  shows "fdc_loss dt self y_hat y msk = Inr (Num 0)"
proof (cases "bool_index y msk = []")
  case True
  show ?thesis by (rule fdc_empty [OF assms(4) assms(5) True])
next
  case False
  let ?s = "sort_desc (bool_index y msk)"
  have len: "length (bool_index y_hat msk) = length (bool_index y msk)"
    by (rule wf_bool_index_length [OF assms(1-5)])
  have eq: "sort_desc (bool_index y_hat msk) = ?s"
    by (rule sort_desc_cong [OF assms(7)])
  from assms(8) False obtain w where w: "mean_abs_diff dt ?s ?s = Num w"
    by (auto simp: is_finite_def split: fl.splits)
  have rep: "dt w = Num w"
    using w unfolding mean_abs_diff_def by (rule fl_mean_representable [OF assms(6)])
  have ww: "w + w = 2 * w" by simp
  from assms(8) False have "is_finite (fl_add dt (Num w) (Num w))"
    unfolding w by blast
  then have fin: "is_finite (dt (2 * w))"
    by (simp only: fl_add.simps ww)
  have "dt (2 * w) = Num (2 * w) \<or> dt (2 * w) = PInf \<or> dt (2 * w) = NInf"
    using assms(6) rep unfolding wf_format_def by blast
  with fin have "dt (2 * w) = Num (2 * w)"
    by (auto simp: is_finite_def)
  then have dbl: "dt (w + w) = Num (2 * w)"
    by (simp only: ww)
  have zero: "dt 0 = Num 0"
    using assms(6) unfolding wf_format_def by blast
  have half: "fl_mul dt (Num (1/2)) (Num (2 * w)) = Num w"
    using rep by simp
  have sub: "fl_sub dt (Num w) (Num w) = Num 0"
    using zero by (simp add: fl_sub_def)
  have "fdc_divergence dt ?s ?s = Num 0"
    unfolding fdc_divergence_def Let_def w
    by (simp only: fl_add.simps dbl half sub)
  then show ?thesis
    by (simp add: fdc_pooled [OF assms(4) assms(5) len False] eq)
qed

theorem fdc_loss_zero_on_rearrangement_witness:
  "fdc_loss exact_format
     \<lparr>distance_matrix = None, variogram_weight = 0, fdc_weight = 1, v_order = 2\<rparr>
     \<lparr>dimB = 1, dimT = 3, dimD = 1, elems = [Num 2, Num 7, Num 5]\<rparr>
     \<lparr>dimB = 1, dimT = 3, dimD = 1, elems = [Num 5, Num 0, Num 2]\<rparr>
     \<lparr>dimB = 1, dimT = 3, dimD = 1, elems = [True, False, True]\<rparr> = Inr (Num 0)"
proof -
  let ?a = "\<lparr>dimB = 1, dimT = 3, dimD = 1, elems = [Num 2, Num 7, Num 5]\<rparr>"
  let ?y = "\<lparr>dimB = 1, dimT = 3, dimD = 1, elems = [Num 5, Num 0, Num 2]\<rparr>"
  let ?m = "\<lparr>dimB = 1, dimT = 3, dimD = 1, elems = [True, False, True]\<rparr>"
  have w: "wf_tensor ?a" "wf_tensor ?y" "wf_tensor ?m"
    by (simp_all add: wf_tensor_def)
  have sh: "shape ?a = shape ?m" "shape ?y = shape ?m"
    by (simp_all add: shape_def)
  have f: "wf_format exact_format"
    by (simp add: wf_format_def exact_format_def)
  have ms: "mset (bool_index ?a ?m) = mset (bool_index ?y ?m)"
    by (simp add: bool_index_def)
  have m: "mean_abs_diff exact_format (sort_desc (bool_index ?y ?m)) (sort_desc (bool_index ?y ?m))
           = Num (3/2)"
    by (simp add: bool_index_def sort_desc_def mean_abs_diff_def fl_mean_def fl_sum_def
        fl_sub_def exact_format_def)
  have fin: "bool_index ?y ?m = []
         \<or> (is_finite (mean_abs_diff exact_format (sort_desc (bool_index ?y ?m))
                                       (sort_desc (bool_index ?y ?m)))
            \<and> is_finite (fl_add exact_format
                 (mean_abs_diff exact_format (sort_desc (bool_index ?y ?m))
                                             (sort_desc (bool_index ?y ?m)))
                 (mean_abs_diff exact_format (sort_desc (bool_index ?y ?m))
                                             (sort_desc (bool_index ?y ?m)))))"
    unfolding m by (simp add: is_finite_def exact_format_def)
  from fdc_loss_zero_on_rearrangement [OF w sh f ms fin]
  show ?thesis .
qed

end
